theory Spec2Isabelle
  imports Complex_Main
begin

section \<open>The congestion visualizer of \<^verbatim>\<open>live_visualizer.py\<close>\<close>

text \<open>
  The class \<^verbatim>\<open>CongestionVisualizer\<close> keeps the latest TCP window size and round trip
  time seen by a capture thread, and a periodic callback \<^verbatim>\<open>update_plot\<close> snapshots them
  into bounded history buffers, derives a throughput and a congestion score and records
  congestion events. Both flows run their bodies under one lock, so the system is a
  sequence of atomic steps on the object's fields.

  Python floats are modelled as \<^typ>\<open>real\<close> (no rounding, no infinities, no NaN), Python
  integers as \<^typ>\<open>int\<close>. The plotting fields (figure, axes, lines, axis limits) and the
  capture parameters (interface, display filter) take no part in the data flow and are
  left out of the state.
\<close>

subsection \<open>Exceptions and fallible arithmetic\<close>

datatype error = ZeroDivisionError | AttributeError | ValueError

text \<open>Python's true division \<^verbatim>\<open>a / b\<close>, which raises on a zero divisor.\<close>

definition truediv :: "real \<Rightarrow> real \<Rightarrow> error + real" where
  "truediv a b = (if b = 0 then Inl ZeroDivisionError else Inr (a / b))"

subsection \<open>Bounded buffers\<close>

text \<open>
  \<^verbatim>\<open>collections.deque(maxlen=n).append(x)\<close>: the item is put at the right end and, when
  the size then exceeds \<^verbatim>\<open>maxlen\<close>, one item is dropped from the left end.
\<close>

definition deque_append :: "nat \<Rightarrow> 'a list \<Rightarrow> 'a \<Rightarrow> 'a list" where
  "deque_append maxlen xs x =
     (let ys = xs @ [x] in if length ys > maxlen then tl ys else ys)"

subsection \<open>The state of the object\<close>

record visualizer =
  history_length :: nat
  time_values :: "real list"
  cwnd_values :: "int option list"
  max_cwnd :: int
  rtt_values :: "real option list"
  throughput_values :: "real list"
  packet_count :: int
  last_throughput_time :: real
  congestion_values :: "real option list"
  congestion_threshold_rtt :: real
  congestion_threshold_cwnd :: real
  congestion_events :: "real list"
  start_time :: real
  latest_cwnd :: "int option"
  latest_rtt :: "real option"

text \<open>
  The fields as \<^verbatim>\<open>__init__\<close> leaves them (lines 26 to 70). \<open>t_throughput\<close> and \<open>t_start\<close>
  are the two readings of \<^verbatim>\<open>time.time()\<close> (lines 42 and 57); every buffer receives one
  dummy sample \<open>0\<close>.
\<close>

definition new_visualizer :: "nat \<Rightarrow> real \<Rightarrow> real \<Rightarrow> real \<Rightarrow> real \<Rightarrow> visualizer" where
  "new_visualizer n thr_rtt thr_cwnd t_throughput t_start =
     \<lparr> history_length = n,
       time_values = deque_append n [] 0,
       cwnd_values = deque_append n [] (Some 0),
       max_cwnd = 1000,
       rtt_values = deque_append n [] (Some 0),
       throughput_values = deque_append n [] 0,
       packet_count = 0,
       last_throughput_time = t_throughput,
       congestion_values = deque_append n [] (Some 0),
       congestion_threshold_rtt = thr_rtt,
       congestion_threshold_cwnd = thr_cwnd,
       congestion_events = [],
       start_time = t_start,
       latest_cwnd = None,
       latest_rtt = None \<rparr>"

text \<open>\<^verbatim>\<open>deque(maxlen=history_length)\<close> raises \<^verbatim>\<open>ValueError\<close> on a negative length.\<close>

definition init :: "int \<Rightarrow> real \<Rightarrow> real \<Rightarrow> real \<Rightarrow> real \<Rightarrow> error + visualizer" where
  "init history_len thr_rtt thr_cwnd t_throughput t_start =
     (if history_len < 0 then Inl ValueError
      else Inr (new_visualizer (nat history_len) thr_rtt thr_cwnd t_throughput t_start))"

subsection \<open>The congestion score\<close>

text \<open>\<^verbatim>\<open>calculate_congestion\<close>, lines 118 to 133.\<close>

definition calculate_congestion ::
  "visualizer \<Rightarrow> real option \<Rightarrow> int option \<Rightarrow> error + real option" where
  "calculate_congestion self rtt cwnd =
     (case rtt of
        None \<Rightarrow> Inr None
      | Some r \<Rightarrow>
          (case cwnd of
             None \<Rightarrow> Inr None
           | Some c \<Rightarrow>
               (case truediv r (congestion_threshold_rtt self) of
                  Inl e \<Rightarrow> Inl e
                | Inr q \<Rightarrow>
                    (let norm_rtt = min 1 q in
                     case (if max_cwnd self > 0
                           then (case truediv (real_of_int c) (real_of_int (max_cwnd self)) of
                                   Inl e \<Rightarrow> Inl e
                                 | Inr w \<Rightarrow> Inr (1 - min 1 w))
                           else Inr 0) of
                       Inl e \<Rightarrow> Inl e
                     | Inr norm_cwnd \<Rightarrow> Inr (Some ((norm_rtt + norm_cwnd) / 2))))))"

subsection \<open>The sampler tick\<close>

text \<open>
  \<^verbatim>\<open>update_plot\<close>, lines 135 to 183, in the order of the source; \<open>now\<close> is the reading of
  \<^verbatim>\<open>time.time()\<close> at line 136. The object is mutated in place, so an exception leaves the
  fields as they were when it was raised: the result is the exception, if any, and the
  fields.
\<close>

text \<open>Lines 141 to 147: the throughput since the last update.\<close>

definition update_throughput :: "real \<Rightarrow> visualizer \<Rightarrow> error + visualizer" where
  "update_throughput current_time self =
     (let packets_since_last = packet_count self;
          s = self\<lparr>packet_count := 0\<rparr>;
          time_elapsed = current_time - last_throughput_time s
      in if time_elapsed > 0
         then (case truediv (real_of_int packets_since_last) time_elapsed of
                 Inl e \<Rightarrow> Inl e
               | Inr throughput \<Rightarrow>
                   Inr (s\<lparr>throughput_values :=
                            deque_append (history_length s) (throughput_values s) throughput,
                          last_throughput_time := current_time\<rparr>))
         else Inr s)"

text \<open>Lines 153 to 161: the window size and the largest window size seen.\<close>

definition update_cwnd :: "visualizer \<Rightarrow> visualizer" where
  "update_cwnd self =
     (case latest_cwnd self of
        Some c \<Rightarrow>
          (let s = self\<lparr>cwnd_values :=
                          deque_append (history_length self) (cwnd_values self) (Some c)\<rparr>
           in if c > max_cwnd s then s\<lparr>max_cwnd := c\<rparr> else s)
      | None \<Rightarrow>
          self\<lparr>cwnd_values := deque_append (history_length self) (cwnd_values self) None\<rparr>)"

text \<open>Lines 164 to 171: the round trip time (the axis limit is plotting only).\<close>

definition update_rtt :: "visualizer \<Rightarrow> visualizer" where
  "update_rtt self =
     (case latest_rtt self of
        Some r \<Rightarrow>
          self\<lparr>rtt_values := deque_append (history_length self) (rtt_values self) (Some r)\<rparr>
      | None \<Rightarrow>
          self\<lparr>rtt_values := deque_append (history_length self) (rtt_values self) None\<rparr>)"

text \<open>Lines 174 to 183: the score and the congestion event.\<close>

definition update_congestion :: "real \<Rightarrow> visualizer \<Rightarrow> error option \<times> visualizer" where
  "update_congestion current_time self =
     (case calculate_congestion self (latest_rtt self) (latest_cwnd self) of
        Inl e \<Rightarrow> (Some e, self)
      | Inr None \<Rightarrow>
          (None, self\<lparr>congestion_values :=
                         deque_append (history_length self) (congestion_values self) None\<rparr>)
      | Inr (Some congestion) \<Rightarrow>
          (let s = self\<lparr>congestion_values :=
                          deque_append (history_length self) (congestion_values self)
                            (Some congestion)\<rparr>
           in (None, if congestion > 0.7
                     then s\<lparr>congestion_events := congestion_events s @ [current_time]\<rparr>
                     else s)))"

definition update_plot :: "real \<Rightarrow> visualizer \<Rightarrow> error option \<times> visualizer" where
  "update_plot now self =
     (let current_time = now - start_time self in
      case update_throughput current_time self of
        Inl e \<Rightarrow> (Some e, self\<lparr>packet_count := 0\<rparr>)
      | Inr s1 \<Rightarrow>
          (let s2 = s1\<lparr>time_values :=
                         deque_append (history_length s1) (time_values s1) current_time\<rparr>;
               s3 = update_cwnd s2;
               s4 = update_rtt s3
           in update_congestion current_time s4))"

text \<open>
  The score of the tick that starts on the fields \<open>self\<close>: line 174 runs after line 157
  has raised the largest window size seen.
\<close>

definition tick_score :: "visualizer \<Rightarrow> error + real option" where
  "tick_score self = calculate_congestion (update_cwnd self) (latest_rtt self) (latest_cwnd self)"

subsection \<open>The capture loop\<close>

text \<open>
  A captured packet as the loop reads it: it may lack a TCP layer, and the layer may lack
  either field. Field values are strings.
\<close>

record tcp_layer =
  window_size_value :: "string option"
  analysis_ack_rtt :: "string option"

record packet =
  tcp :: "tcp_layer option"

text \<open>
  The body of the \<^verbatim>\<open>try\<close> block, lines 246 to 257. The builtins \<^verbatim>\<open>int\<close> and \<^verbatim>\<open>float\<close>
  are parameters: they give \<open>None\<close> where Python raises \<^verbatim>\<open>ValueError\<close>. Reading
  \<^verbatim>\<open>packet.tcp\<close> of a packet without that layer raises \<^verbatim>\<open>AttributeError\<close>.
\<close>

definition process_packet ::
  "(string \<Rightarrow> int option) \<Rightarrow> (string \<Rightarrow> real option) \<Rightarrow> packet \<Rightarrow> visualizer
     \<Rightarrow> error option \<times> visualizer" where
  "process_packet py_int py_float pkt self =
     (let s1 = self\<lparr>packet_count := packet_count self + 1\<rparr> in
      case tcp pkt of
        None \<Rightarrow> (Some AttributeError, s1)
      | Some layer \<Rightarrow>
          (case (case window_size_value layer of
                   None \<Rightarrow> Inr s1
                 | Some v \<Rightarrow>
                     (case py_int v of
                        None \<Rightarrow> Inl ValueError
                      | Some cwnd \<Rightarrow> Inr (s1\<lparr>latest_cwnd := Some cwnd\<rparr>))) of
             Inl e \<Rightarrow> (Some e, s1)
           | Inr s2 \<Rightarrow>
               (case analysis_ack_rtt layer of
                  None \<Rightarrow> (None, s2)
                | Some v \<Rightarrow>
                    (case py_float v of
                       None \<Rightarrow> (Some ValueError, s2)
                     | Some x \<Rightarrow> (None, s2\<lparr>latest_rtt := Some (x * 1000)\<rparr>)))))"

text \<open>
  The loop of lines 243 to 266 over the packets captured so far: both handlers print
  and \<^verbatim>\<open>continue\<close>, so the next packet is processed on the fields as the failed one
  left them.
\<close>

definition capture_packets ::
  "(string \<Rightarrow> int option) \<Rightarrow> (string \<Rightarrow> real option) \<Rightarrow> packet list \<Rightarrow> visualizer
     \<Rightarrow> visualizer" where
  "capture_packets py_int py_float pkts self =
     fold (\<lambda>pkt s. snd (process_packet py_int py_float pkt s)) pkts self"

subsection \<open>Runs of the two flows\<close>

text \<open>
  The lock makes each tick and each packet one atomic step, so a run of the program is
  an interleaving of both. A tick that raised leaves its partial update behind.
\<close>

datatype action = Tick real | Capture packet

fun step ::
  "(string \<Rightarrow> int option) \<Rightarrow> (string \<Rightarrow> real option) \<Rightarrow> action \<Rightarrow> visualizer \<Rightarrow> visualizer" where
  "step py_int py_float (Tick now) s = snd (update_plot now s)"
| "step py_int py_float (Capture pkt) s = snd (process_packet py_int py_float pkt s)"

definition run ::
  "(string \<Rightarrow> int option) \<Rightarrow> (string \<Rightarrow> real option) \<Rightarrow> action list \<Rightarrow> visualizer \<Rightarrow> visualizer" where
  "run py_int py_float acts s = fold (step py_int py_float) acts s"

fun is_tick :: "action \<Rightarrow> bool" where
  "is_tick (Tick _) = True"
| "is_tick (Capture _) = False"

definition ticks :: "action list \<Rightarrow> nat" where
  "ticks acts = length (filter is_tick acts)"

subsection \<open>Sample inputs\<close>

text \<open>The visualizer with the defaults of the constructor, both clock readings \<open>0\<close>.\<close>

definition default_visualizer :: visualizer where
  "default_visualizer = new_visualizer 100 100 0.7 0 0"

text \<open>
  The same with both clock readings taken at 1700000000 seconds after the epoch, as
  \<^verbatim>\<open>time.time()\<close> gives them on a real clock.
\<close>

definition epoch_visualizer :: visualizer where
  "epoch_visualizer = new_visualizer 100 100 0.7 1700000000 1700000000"

text \<open>
  The visualizer configured with \<^verbatim>\<open>congestion_threshold_cwnd = 0.5\<close>, after a packet with
  window size 800 and an RTT of 0.1 s was captured.
\<close>

definition half_threshold_visualizer :: visualizer where
  "half_threshold_visualizer =
     (new_visualizer 100 100 0.5 0 0)\<lparr>packet_count := 1, latest_cwnd := Some 800,
                                       latest_rtt := Some 100\<rparr>"

text \<open>Parsers that know the few field values of the sample packets.\<close>

definition sample_int :: "string \<Rightarrow> int option" where
  "sample_int = [''800'' \<mapsto> 800, ''2000'' \<mapsto> 2000, ''100'' \<mapsto> 100]"

definition sample_float :: "string \<Rightarrow> real option" where
  "sample_float = [''0.1'' \<mapsto> 0.1, ''0.05'' \<mapsto> 0.05, ''0.15'' \<mapsto> 0.15]"

definition sample_packet :: packet where
  "sample_packet =
     \<lparr>tcp = Some \<lparr>window_size_value = Some ''800'', analysis_ack_rtt = Some ''0.1''\<rparr>\<rparr>"

text \<open>A packet of a congested connection: a small window and an RTT of 0.15 s.\<close>

definition congested_packet :: packet where
  "congested_packet =
     \<lparr>tcp = Some \<lparr>window_size_value = Some ''100'', analysis_ack_rtt = Some ''0.15''\<rparr>\<rparr>"

text \<open>A packet with a window larger than the initial maximum and no RTT annotation.\<close>

definition wide_packet :: packet where
  "wide_packet = \<lparr>tcp = Some \<lparr>window_size_value = Some ''2000'', analysis_ack_rtt = None\<rparr>\<rparr>"

text \<open>A packet whose window size does not parse, with a well-formed RTT.\<close>

definition garbled_packet :: packet where
  "garbled_packet =
     \<lparr>tcp = Some \<lparr>window_size_value = Some ''x'', analysis_ack_rtt = Some ''0.05''\<rparr>\<rparr>"

text \<open>The fields of a packet as the capture loop finds them.\<close>

definition window_field :: "packet \<Rightarrow> string option" where
  "window_field pkt = (case tcp pkt of None \<Rightarrow> None | Some layer \<Rightarrow> window_size_value layer)"

definition rtt_field :: "packet \<Rightarrow> string option" where
  "rtt_field pkt = (case tcp pkt of None \<Rightarrow> None | Some layer \<Rightarrow> analysis_ack_rtt layer)"

section \<open>The congestion score\<close>

lemma calculate_congestion_value:
  assumes "congestion_threshold_rtt self \<noteq> 0"
  shows "calculate_congestion self (Some rtt) (Some cwnd) =
           Inr (Some ((min 1 (rtt / congestion_threshold_rtt self)
                       + (if max_cwnd self > 0
                          then 1 - min 1 (real_of_int cwnd / real_of_int (max_cwnd self))
                          else 0)) / 2))"
  using assms by (simp add: calculate_congestion_def truediv_def)


section \<open>Bounded buffers\<close>

lemma length_deque_append:
  "length (deque_append n xs x) = (if n \<le> length xs then length xs else Suc (length xs))"
  by (simp add: deque_append_def Let_def)

lemma deque_append_room: "length xs < n \<Longrightarrow> deque_append n xs x = xs @ [x]"
  by (simp add: deque_append_def Let_def)

lemma deque_append_full:
  "n \<le> length xs \<Longrightarrow> xs \<noteq> [] \<Longrightarrow> deque_append n xs x = tl xs @ [x]"
  by (simp add: deque_append_def Let_def)

section \<open>One tick, field by field\<close>

lemma update_throughput_eq:
  "update_throughput ct s =
     Inr (if ct - last_throughput_time s > 0
          then s\<lparr>packet_count := 0,
                 throughput_values :=
                   deque_append (history_length s) (throughput_values s)
                     (real_of_int (packet_count s) / (ct - last_throughput_time s)),
                 last_throughput_time := ct\<rparr>
          else s\<lparr>packet_count := 0\<rparr>)"
  by (simp add: update_throughput_def truediv_def Let_def)

lemma update_cwnd_eq:
  "update_cwnd s =
     s\<lparr>cwnd_values := deque_append (history_length s) (cwnd_values s) (latest_cwnd s),
       max_cwnd := (case latest_cwnd s of
                      Some c \<Rightarrow> if c > max_cwnd s then c else max_cwnd s
                    | None \<Rightarrow> max_cwnd s)\<rparr>"
  by (cases "latest_cwnd s") (simp_all add: update_cwnd_def Let_def)

lemma update_rtt_eq:
  "update_rtt s =
     s\<lparr>rtt_values := deque_append (history_length s) (rtt_values s) (latest_rtt s)\<rparr>"
  by (cases "latest_rtt s") (simp_all add: update_rtt_def)

text \<open>The fields when the score is computed: everything before line 174 has run.\<close>

lemma update_plot_eq:
  "update_plot now s =
     update_congestion (now - start_time s)
       (s\<lparr>packet_count := 0,
          throughput_values :=
            (if now - start_time s - last_throughput_time s > 0
             then deque_append (history_length s) (throughput_values s)
                    (real_of_int (packet_count s) / (now - start_time s - last_throughput_time s))
             else throughput_values s),
          last_throughput_time :=
            (if now - start_time s - last_throughput_time s > 0
             then now - start_time s else last_throughput_time s),
          time_values := deque_append (history_length s) (time_values s) (now - start_time s),
          cwnd_values := deque_append (history_length s) (cwnd_values s) (latest_cwnd s),
          max_cwnd := (case latest_cwnd s of
                         Some c \<Rightarrow> if c > max_cwnd s then c else max_cwnd s
                       | None \<Rightarrow> max_cwnd s),
          rtt_values := deque_append (history_length s) (rtt_values s) (latest_rtt s)\<rparr>)"
  by (cases "now - start_time s - last_throughput_time s > 0"; cases "latest_cwnd s")
     (simp_all add: update_plot_def update_throughput_eq update_cwnd_eq update_rtt_eq Let_def)

lemma update_congestion_frame:
  "history_length (snd (update_congestion ct s)) = history_length s"
  "congestion_threshold_rtt (snd (update_congestion ct s)) = congestion_threshold_rtt s"
  "congestion_threshold_cwnd (snd (update_congestion ct s)) = congestion_threshold_cwnd s"
  "start_time (snd (update_congestion ct s)) = start_time s"
  "latest_cwnd (snd (update_congestion ct s)) = latest_cwnd s"
  "latest_rtt (snd (update_congestion ct s)) = latest_rtt s"
  "packet_count (snd (update_congestion ct s)) = packet_count s"
  "time_values (snd (update_congestion ct s)) = time_values s"
  "cwnd_values (snd (update_congestion ct s)) = cwnd_values s"
  "rtt_values (snd (update_congestion ct s)) = rtt_values s"
  "max_cwnd (snd (update_congestion ct s)) = max_cwnd s"
  "throughput_values (snd (update_congestion ct s)) = throughput_values s"
  "last_throughput_time (snd (update_congestion ct s)) = last_throughput_time s"
  by (simp_all add: update_congestion_def Let_def split: sum.splits option.splits)

lemma calculate_congestion_fields:
  "congestion_threshold_rtt s = congestion_threshold_rtt s' \<Longrightarrow> max_cwnd s = max_cwnd s'
     \<Longrightarrow> calculate_congestion s r c = calculate_congestion s' r c"
  by (cases r; cases c) (auto simp: calculate_congestion_def truediv_def Let_def)

lemma update_congestion_values:
  "congestion_values (snd (update_congestion ct s)) =
     (case calculate_congestion s (latest_rtt s) (latest_cwnd s) of
        Inl e \<Rightarrow> congestion_values s
      | Inr c \<Rightarrow> deque_append (history_length s) (congestion_values s) c)"
  by (simp add: update_congestion_def Let_def split: sum.splits option.splits)

lemma update_congestion_events:
  "congestion_events (snd (update_congestion ct s)) =
     (if \<exists>c. calculate_congestion s (latest_rtt s) (latest_cwnd s) = Inr (Some c) \<and> 0.7 < c
      then congestion_events s @ [ct] else congestion_events s)"
  by (simp add: update_congestion_def Let_def split: sum.splits option.splits)

lemma update_congestion_error:
  "fst (update_congestion ct s) =
     (case calculate_congestion s (latest_rtt s) (latest_cwnd s) of
        Inl e \<Rightarrow> Some e
      | Inr c \<Rightarrow> None)"
  by (simp add: update_congestion_def Let_def split: sum.splits option.splits)

lemma update_plot_frame:
  "history_length (snd (update_plot now s)) = history_length s"
  "congestion_threshold_rtt (snd (update_plot now s)) = congestion_threshold_rtt s"
  "congestion_threshold_cwnd (snd (update_plot now s)) = congestion_threshold_cwnd s"
  "start_time (snd (update_plot now s)) = start_time s"
  "latest_cwnd (snd (update_plot now s)) = latest_cwnd s"
  "latest_rtt (snd (update_plot now s)) = latest_rtt s"
  by (simp_all add: update_plot_eq update_congestion_frame)

lemma update_plot_packet_count: "packet_count (snd (update_plot now s)) = 0"
  by (simp add: update_plot_eq update_congestion_frame)

lemma update_plot_time_values:
  "time_values (snd (update_plot now s)) =
     deque_append (history_length s) (time_values s) (now - start_time s)"
  by (simp add: update_plot_eq update_congestion_frame)

lemma update_plot_cwnd_values:
  "cwnd_values (snd (update_plot now s)) =
     deque_append (history_length s) (cwnd_values s) (latest_cwnd s)"
  by (simp add: update_plot_eq update_congestion_frame)

lemma update_plot_rtt_values:
  "rtt_values (snd (update_plot now s)) =
     deque_append (history_length s) (rtt_values s) (latest_rtt s)"
  by (simp add: update_plot_eq update_congestion_frame)

lemma update_plot_max_cwnd:
  "max_cwnd (snd (update_plot now s)) =
     (case latest_cwnd s of
        Some c \<Rightarrow> if c > max_cwnd s then c else max_cwnd s
      | None \<Rightarrow> max_cwnd s)"
  by (simp add: update_plot_eq update_congestion_frame)

lemma update_plot_throughput_values:
  "throughput_values (snd (update_plot now s)) =
     (if now - start_time s - last_throughput_time s > 0
      then deque_append (history_length s) (throughput_values s)
             (real_of_int (packet_count s) / (now - start_time s - last_throughput_time s))
      else throughput_values s)"
  by (simp add: update_plot_eq update_congestion_frame)

lemma update_plot_last_throughput_time:
  "last_throughput_time (snd (update_plot now s)) =
     (if now - start_time s - last_throughput_time s > 0
      then now - start_time s else last_throughput_time s)"
  by (simp add: update_plot_eq update_congestion_frame)

lemma update_plot_pre:
  obtains pre where "update_plot now s = update_congestion (now - start_time s) pre"
    and "latest_rtt pre = latest_rtt s" and "latest_cwnd pre = latest_cwnd s"
    and "history_length pre = history_length s"
    and "congestion_values pre = congestion_values s"
    and "congestion_events pre = congestion_events s"
    and "tick_score s = calculate_congestion pre (latest_rtt pre) (latest_cwnd pre)"
proof -
  let ?b = "now - start_time s - last_throughput_time s > 0"
  let ?pre = "s\<lparr>packet_count := 0,
          throughput_values :=
            (if ?b then deque_append (history_length s) (throughput_values s)
                    (real_of_int (packet_count s) / (now - start_time s - last_throughput_time s))
             else throughput_values s),
          last_throughput_time := (if ?b then now - start_time s else last_throughput_time s),
          time_values := deque_append (history_length s) (time_values s) (now - start_time s),
          cwnd_values := deque_append (history_length s) (cwnd_values s) (latest_cwnd s),
          max_cwnd := (case latest_cwnd s of
                         Some c \<Rightarrow> if c > max_cwnd s then c else max_cwnd s
                       | None \<Rightarrow> max_cwnd s),
          rtt_values := deque_append (history_length s) (rtt_values s) (latest_rtt s)\<rparr>"
  have "update_plot now s = update_congestion (now - start_time s) ?pre"
    by (rule update_plot_eq)
  moreover have l: "latest_rtt ?pre = latest_rtt s" "latest_cwnd ?pre = latest_cwnd s"
    by simp_all
  moreover have "history_length ?pre = history_length s"
    "congestion_values ?pre = congestion_values s"
    "congestion_events ?pre = congestion_events s"
    by simp_all
  moreover have "tick_score s = calculate_congestion ?pre (latest_rtt ?pre) (latest_cwnd ?pre)"
    unfolding tick_score_def l
    by (rule calculate_congestion_fields) (simp_all add: update_cwnd_eq)
  ultimately show ?thesis by (rule that)
qed

lemma update_plot_congestion_values:
  "congestion_values (snd (update_plot now s)) =
     (case tick_score s of
        Inl e \<Rightarrow> congestion_values s
      | Inr c \<Rightarrow> deque_append (history_length s) (congestion_values s) c)"
proof -
  obtain pre where "update_plot now s = update_congestion (now - start_time s) pre"
    and "latest_rtt pre = latest_rtt s" and "latest_cwnd pre = latest_cwnd s"
    and "history_length pre = history_length s"
    and "congestion_values pre = congestion_values s"
    and "tick_score s = calculate_congestion pre (latest_rtt pre) (latest_cwnd pre)"
    by (rule update_plot_pre)
  then show ?thesis by (simp add: update_congestion_values split: sum.splits)
qed

lemma update_plot_congestion_events:
  "congestion_events (snd (update_plot now s)) =
     (if \<exists>c. tick_score s = Inr (Some c) \<and> 0.7 < c
      then congestion_events s @ [now - start_time s] else congestion_events s)"
proof -
  obtain pre where "update_plot now s = update_congestion (now - start_time s) pre"
    and "congestion_events pre = congestion_events s"
    and "tick_score s = calculate_congestion pre (latest_rtt pre) (latest_cwnd pre)"
    by (rule update_plot_pre)
  then show ?thesis by (simp add: update_congestion_events)
qed

lemma update_plot_error:
  "fst (update_plot now s) = (case tick_score s of Inl e \<Rightarrow> Some e | Inr c \<Rightarrow> None)"
proof -
  obtain pre where "update_plot now s = update_congestion (now - start_time s) pre"
    and "tick_score s = calculate_congestion pre (latest_rtt pre) (latest_cwnd pre)"
    by (rule update_plot_pre)
  then show ?thesis by (simp add: update_congestion_error split: sum.splits)
qed

lemma tick_score_defined:
  "congestion_threshold_rtt s \<noteq> 0 \<Longrightarrow> \<exists>c. tick_score s = Inr c"
  by (cases "latest_rtt s"; cases "latest_cwnd s")
     (simp_all add: tick_score_def calculate_congestion_def truediv_def update_cwnd_eq Let_def)

section \<open>One packet, field by field\<close>

lemma process_packet_frame:
  "history_length (snd (process_packet py_int py_float pkt s)) = history_length s"
  "congestion_threshold_rtt (snd (process_packet py_int py_float pkt s)) = congestion_threshold_rtt s"
  "congestion_threshold_cwnd (snd (process_packet py_int py_float pkt s)) = congestion_threshold_cwnd s"
  "start_time (snd (process_packet py_int py_float pkt s)) = start_time s"
  "last_throughput_time (snd (process_packet py_int py_float pkt s)) = last_throughput_time s"
  "max_cwnd (snd (process_packet py_int py_float pkt s)) = max_cwnd s"
  "time_values (snd (process_packet py_int py_float pkt s)) = time_values s"
  "cwnd_values (snd (process_packet py_int py_float pkt s)) = cwnd_values s"
  "rtt_values (snd (process_packet py_int py_float pkt s)) = rtt_values s"
  "throughput_values (snd (process_packet py_int py_float pkt s)) = throughput_values s"
  "congestion_values (snd (process_packet py_int py_float pkt s)) = congestion_values s"
  "congestion_events (snd (process_packet py_int py_float pkt s)) = congestion_events s"
  by (simp_all add: process_packet_def Let_def split: option.splits sum.splits)

lemma process_packet_count:
  "packet_count (snd (process_packet py_int py_float pkt s)) = packet_count s + 1"
  by (simp add: process_packet_def Let_def split: option.splits sum.splits)

lemma process_packet_latest_cwnd:
  "latest_cwnd (snd (process_packet py_int py_float pkt s)) =
     (case window_field pkt of
        None \<Rightarrow> latest_cwnd s
      | Some v \<Rightarrow> (case py_int v of None \<Rightarrow> latest_cwnd s | Some c \<Rightarrow> Some c))"
  by (simp add: process_packet_def window_field_def Let_def split: option.splits sum.splits)

lemma process_packet_latest_rtt:
  "latest_rtt (snd (process_packet py_int py_float pkt s)) =
     (case rtt_field pkt of
        None \<Rightarrow> latest_rtt s
      | Some v \<Rightarrow>
          (case py_float v of
             None \<Rightarrow> latest_rtt s
           | Some x \<Rightarrow>
               if \<exists>w. window_field pkt = Some w \<and> py_int w = None
               then latest_rtt s else Some (x * 1000)))"
  by (auto simp add: process_packet_def window_field_def rtt_field_def Let_def
        split: option.splits sum.splits)

lemma capture_packets_count:
  "packet_count (capture_packets py_int py_float pkts s) = packet_count s + int (length pkts)"
  by (induction pkts arbitrary: s) (simp_all add: capture_packets_def process_packet_count)

lemma capture_packets_frame:
  "history_length (capture_packets py_int py_float pkts s) = history_length s"
  "start_time (capture_packets py_int py_float pkts s) = start_time s"
  "last_throughput_time (capture_packets py_int py_float pkts s) = last_throughput_time s"
  "throughput_values (capture_packets py_int py_float pkts s) = throughput_values s"
  by (induction pkts arbitrary: s) (simp_all add: capture_packets_def process_packet_frame)

section \<open>Runs\<close>

lemma run_Nil [simp]: "run py_int py_float [] s = s"
  by (simp add: run_def)

lemma run_snoc [simp]: "run py_int py_float (acts @ [a]) s = step py_int py_float a (run py_int py_float acts s)"
  by (simp add: run_def)

lemma ticks_Nil [simp]: "ticks [] = 0"
  by (simp add: ticks_def)

lemma ticks_snoc [simp]:
  "ticks (acts @ [a]) = (if is_tick a then Suc (ticks acts) else ticks acts)"
  by (simp add: ticks_def)

lemma step_frame:
  "history_length (step py_int py_float a s) = history_length s"
  "congestion_threshold_rtt (step py_int py_float a s) = congestion_threshold_rtt s"
  "start_time (step py_int py_float a s) = start_time s"
  by (cases a; simp add: update_plot_frame process_packet_frame)+

lemma run_frame:
  "history_length (run py_int py_float acts s) = history_length s"
  "congestion_threshold_rtt (run py_int py_float acts s) = congestion_threshold_rtt s"
  "start_time (run py_int py_float acts s) = start_time s"
  by (induction acts rule: rev_induct) (simp_all add: step_frame)

lemma step_max_cwnd: "max_cwnd s \<le> max_cwnd (step py_int py_float a s)"
  by (cases a) (simp_all add: update_plot_max_cwnd process_packet_frame split: option.splits)

lemma run_max_cwnd: "max_cwnd s \<le> max_cwnd (run py_int py_float acts s)"
proof (induction acts rule: rev_induct)
  case Nil
  show ?case by simp
next
  case (snoc a acts)
  have "max_cwnd (run py_int py_float acts s) \<le> max_cwnd (step py_int py_float a (run py_int py_float acts s))"
    by (rule step_max_cwnd)
  with snoc show ?case by simp
qed

text \<open>A buffer that every tick appends to, and no packet touches, fills one per tick.\<close>

lemma run_buffer_length:
  fixes buf :: "visualizer \<Rightarrow> 'a list"
  assumes tick: "\<And>now s. congestion_threshold_rtt s \<noteq> 0 \<Longrightarrow>
                   \<exists>x. buf (snd (update_plot now s)) = deque_append (history_length s) (buf s) x"
    and pkt: "\<And>pkt s. buf (snd (process_packet py_int py_float pkt s)) = buf s"
    and thr: "congestion_threshold_rtt s \<noteq> 0"
    and start: "length (buf s) \<le> history_length s"
  shows "length (buf (run py_int py_float acts s)) = min (length (buf s) + ticks acts) (history_length s)"
proof (induction acts rule: rev_induct)
  case Nil
  show ?case using start by simp
next
  case (snoc a acts)
  let ?q = "run py_int py_float acts s"
  have q: "congestion_threshold_rtt ?q \<noteq> 0" "history_length ?q = history_length s"
    using thr by (simp_all add: run_frame)
  show ?case
  proof (cases a)
    case (Tick now)
    obtain x where "buf (snd (update_plot now ?q)) = deque_append (history_length ?q) (buf ?q) x"
      using tick [OF q(1)] by blast
    then show ?thesis
      using snoc Tick q(2) by (simp add: length_deque_append)
  next
    case (Capture p)
    then show ?thesis using snoc pkt by simp
  qed
qed

section \<open>The claims about the score\<close>

text \<open>
  Claim C1. For a round trip time and a window size that are not negative, a positive
  largest window size and a positive RTT threshold, \<^verbatim>\<open>calculate_congestion\<close> returns
  a score, and the score lies between 0 and 1.
\<close>

theorem calculate_congestion_unit_interval:
  assumes "0 \<le> rtt" and "0 \<le> cwnd" and "0 < max_cwnd self"
    and "0 < congestion_threshold_rtt self"
  shows "\<exists>score. calculate_congestion self (Some rtt) (Some cwnd) = Inr (Some score)
           \<and> 0 \<le> score \<and> score \<le> 1"
proof -
  let ?a = "min 1 (rtt / congestion_threshold_rtt self)"
  let ?b = "1 - min 1 (real_of_int cwnd / real_of_int (max_cwnd self))"
  have a: "0 \<le> ?a" "?a \<le> 1" using assms by simp_all
  have "0 \<le> real_of_int cwnd / real_of_int (max_cwnd self)" using assms by simp
  then have b: "0 \<le> ?b" "?b \<le> 1" by simp_all
  have "calculate_congestion self (Some rtt) (Some cwnd) = Inr (Some ((?a + ?b) / 2))"
    using assms calculate_congestion_value [of self rtt cwnd] by simp
  moreover have "0 \<le> (?a + ?b) / 2" using a(1) b(1) by simp
  moreover have "(?a + ?b) / 2 \<le> 1" using a(2) b(2) by simp
  ultimately show ?thesis by blast
qed

theorem calculate_congestion_unit_interval_witness:
  "(0::real) \<le> 150 \<and> (0::int) \<le> 100 \<and> 0 < max_cwnd default_visualizer
     \<and> 0 < congestion_threshold_rtt default_visualizer
     \<and> (\<exists>score. calculate_congestion default_visualizer (Some 150) (Some 100) = Inr (Some score)
           \<and> 0 \<le> score \<and> score \<le> 1)"
  using calculate_congestion_unit_interval [of 150 100 default_visualizer]
  by (simp add: default_visualizer_def new_visualizer_def)

text \<open>
  Claim C4. The scorer returns \<^verbatim>\<open>None\<close> exactly when the round trip time or the
  window size is absent. When both are present it returns the mean of the clamped RTT
  ratio and of one minus the clamped window ratio (zero when the largest window size is
  not positive); the formula divides by the RTT threshold, which is therefore taken to be
  non-zero. With RTT 150, window 100, largest window 1000 and threshold 100 the score is
  0.95.
\<close>

theorem calculate_congestion_formula:
  assumes "congestion_threshold_rtt self \<noteq> 0"
  shows "(calculate_congestion self rtt cwnd = Inr None \<longleftrightarrow> rtt = None \<or> cwnd = None)
     \<and> calculate_congestion self (Some r) (Some c) =
         Inr (Some ((min 1 (r / congestion_threshold_rtt self)
                     + (if max_cwnd self > 0
                        then 1 - min 1 (real_of_int c / real_of_int (max_cwnd self))
                        else 0)) / 2))
     \<and> calculate_congestion (self\<lparr>max_cwnd := 1000, congestion_threshold_rtt := 100\<rparr>)
         (Some 150) (Some 100) = Inr (Some 0.95)"
proof (intro conjI)
  show "calculate_congestion self rtt cwnd = Inr None \<longleftrightarrow> rtt = None \<or> cwnd = None"
    using assms
    by (cases rtt; cases cwnd) (simp_all add: calculate_congestion_def truediv_def)
next
  show "calculate_congestion self (Some r) (Some c) =
         Inr (Some ((min 1 (r / congestion_threshold_rtt self)
                     + (if max_cwnd self > 0
                        then 1 - min 1 (real_of_int c / real_of_int (max_cwnd self))
                        else 0)) / 2))"
    using assms by (rule calculate_congestion_value)
next
  show "calculate_congestion (self\<lparr>max_cwnd := 1000, congestion_threshold_rtt := 100\<rparr>)
         (Some 150) (Some 100) = Inr (Some 0.95)"
    by (simp add: calculate_congestion_value)
qed

theorem calculate_congestion_formula_witness:
  "congestion_threshold_rtt default_visualizer \<noteq> 0
     \<and> calculate_congestion default_visualizer (Some 50) None = Inr None
     \<and> calculate_congestion default_visualizer (Some 50) (Some 500) = Inr (Some 0.5)"
  using calculate_congestion_formula [of default_visualizer "Some 50" None 50 500]
  by (simp add: default_visualizer_def new_visualizer_def)

text \<open>
  Claim C10. With a positive RTT threshold and a positive largest window size, raising
  the round trip time or lowering the window size never lowers the score.
\<close>

theorem calculate_congestion_monotone:
  assumes "0 < congestion_threshold_rtt self" and "0 < max_cwnd self"
    and "rtt \<le> rtt'" and "cwnd' \<le> cwnd"
  shows "\<exists>lo hi. calculate_congestion self (Some rtt) (Some cwnd) = Inr (Some lo)
           \<and> calculate_congestion self (Some rtt') (Some cwnd') = Inr (Some hi)
           \<and> lo \<le> hi"
proof -
  let ?t = "congestion_threshold_rtt self"
  let ?m = "real_of_int (max_cwnd self)"
  have r: "min 1 (rtt / ?t) \<le> min 1 (rtt' / ?t)"
    using assms by (intro min.mono order_refl divide_right_mono) simp_all
  have "real_of_int cwnd' / ?m \<le> real_of_int cwnd / ?m"
    using assms by (intro divide_right_mono) simp_all
  then have c: "1 - min 1 (real_of_int cwnd / ?m) \<le> 1 - min 1 (real_of_int cwnd' / ?m)"
    by (simp add: min_le_iff_disj)
  have "calculate_congestion self (Some rtt) (Some cwnd) =
          Inr (Some ((min 1 (rtt / ?t) + (1 - min 1 (real_of_int cwnd / ?m))) / 2))"
    and "calculate_congestion self (Some rtt') (Some cwnd') =
          Inr (Some ((min 1 (rtt' / ?t) + (1 - min 1 (real_of_int cwnd' / ?m))) / 2))"
    using assms by (simp_all add: calculate_congestion_value)
  moreover have "(min 1 (rtt / ?t) + (1 - min 1 (real_of_int cwnd / ?m))) / 2
                   \<le> (min 1 (rtt' / ?t) + (1 - min 1 (real_of_int cwnd' / ?m))) / 2"
    using r c by (simp add: add_mono)
  ultimately show ?thesis by blast
qed

theorem calculate_congestion_monotone_witness:
  "0 < congestion_threshold_rtt default_visualizer \<and> 0 < max_cwnd default_visualizer
     \<and> (50::real) \<le> 150 \<and> (100::int) \<le> 500
     \<and> (\<exists>lo hi. calculate_congestion default_visualizer (Some 50) (Some 500) = Inr (Some lo)
           \<and> calculate_congestion default_visualizer (Some 150) (Some 100) = Inr (Some hi)
           \<and> lo \<le> hi)"
  using calculate_congestion_monotone [of default_visualizer 50 150 100 500]
  by (simp add: default_visualizer_def new_visualizer_def)

section \<open>The claims about the history buffers\<close>

text \<open>
  Claim C2 fails as stated. The constructor puts one dummy sample into every buffer, so
  a buffer holds one entry more than ticks have run until it is full; and the throughput
  buffer is appended to only when the elapsed time is positive. On a real clock the
  elapsed time is the seconds since the start minus the absolute clock reading of the
  constructor, which is negative: after the first tick the time buffer holds two entries,
  the throughput buffer one, and one tick has run.
\<close>

theorem history_buffers_counterexample:
  "length (time_values (snd (update_plot 1700000001 epoch_visualizer))) = 2
     \<and> length (throughput_values (snd (update_plot 1700000001 epoch_visualizer))) = 1
     \<and> min (ticks [Tick 1700000001]) (history_length epoch_visualizer) = 1"
  by (simp add: update_plot_time_values update_plot_throughput_values epoch_visualizer_def
        new_visualizer_def deque_append_def ticks_def)

text \<open>
  Claim C2, as amended. With a non-zero RTT threshold, after any run of ticks and
  captured packets that starts from the constructor, the time, window size, RTT and
  congestion score buffers all have the length \<open>min (ticks + 1) history_length\<close>, the one
  dummy sample counted; and once they are full, a tick drops exactly the oldest entry of
  each and puts the new sample at the end.
\<close>

theorem history_buffers_aligned:
  assumes "thr_rtt \<noteq> 0"
  shows "length (time_values (run py_int py_float acts (new_visualizer n thr_rtt thr_cwnd t1 t2)))
           = min (ticks acts + 1) n
     \<and> length (cwnd_values (run py_int py_float acts (new_visualizer n thr_rtt thr_cwnd t1 t2)))
           = min (ticks acts + 1) n
     \<and> length (rtt_values (run py_int py_float acts (new_visualizer n thr_rtt thr_cwnd t1 t2)))
           = min (ticks acts + 1) n
     \<and> length (congestion_values
                  (run py_int py_float acts (new_visualizer n thr_rtt thr_cwnd t1 t2)))
           = min (ticks acts + 1) n
     \<and> (0 < n \<and> n \<le> ticks acts + 1 \<longrightarrow>
          time_values (snd (update_plot now
              (run py_int py_float acts (new_visualizer n thr_rtt thr_cwnd t1 t2))))
            = tl (time_values (run py_int py_float acts (new_visualizer n thr_rtt thr_cwnd t1 t2)))
                @ [now - t2]
        \<and> cwnd_values (snd (update_plot now
              (run py_int py_float acts (new_visualizer n thr_rtt thr_cwnd t1 t2))))
            = tl (cwnd_values (run py_int py_float acts (new_visualizer n thr_rtt thr_cwnd t1 t2)))
                @ [latest_cwnd (run py_int py_float acts (new_visualizer n thr_rtt thr_cwnd t1 t2))]
        \<and> rtt_values (snd (update_plot now
              (run py_int py_float acts (new_visualizer n thr_rtt thr_cwnd t1 t2))))
            = tl (rtt_values (run py_int py_float acts (new_visualizer n thr_rtt thr_cwnd t1 t2)))
                @ [latest_rtt (run py_int py_float acts (new_visualizer n thr_rtt thr_cwnd t1 t2))]
        \<and> (\<exists>c. tick_score (run py_int py_float acts (new_visualizer n thr_rtt thr_cwnd t1 t2))
                  = Inr c
              \<and> congestion_values (snd (update_plot now
                    (run py_int py_float acts (new_visualizer n thr_rtt thr_cwnd t1 t2))))
                  = tl (congestion_values
                         (run py_int py_float acts (new_visualizer n thr_rtt thr_cwnd t1 t2)))
                      @ [c]))"
proof -
  let ?init = "new_visualizer n thr_rtt thr_cwnd t1 t2"
  let ?st = "run py_int py_float acts ?init"
  have thr: "congestion_threshold_rtt ?init \<noteq> 0" and h0: "history_length ?init = n"
    and st0: "start_time ?init = t2"
    using assms by (simp_all add: new_visualizer_def)
  have len0: "length (time_values ?init) = min 1 n" "length (cwnd_values ?init) = min 1 n"
    "length (rtt_values ?init) = min 1 n" "length (congestion_values ?init) = min 1 n"
    by (simp_all add: new_visualizer_def length_deque_append)
  have start: "length (time_values ?init) \<le> history_length ?init"
    "length (cwnd_values ?init) \<le> history_length ?init"
    "length (rtt_values ?init) \<le> history_length ?init"
    "length (congestion_values ?init) \<le> history_length ?init"
    by (simp_all add: h0 len0)
  have tick_t: "\<exists>x. time_values (snd (update_plot now s)) =
                  deque_append (history_length s) (time_values s) x" for now s
    unfolding update_plot_time_values by (rule exI) (rule refl)
  have tick_c: "\<exists>x. cwnd_values (snd (update_plot now s)) =
                  deque_append (history_length s) (cwnd_values s) x" for now s
    unfolding update_plot_cwnd_values by (rule exI) (rule refl)
  have tick_r: "\<exists>x. rtt_values (snd (update_plot now s)) =
                  deque_append (history_length s) (rtt_values s) x" for now s
    unfolding update_plot_rtt_values by (rule exI) (rule refl)
  have tick_g: "\<exists>x. congestion_values (snd (update_plot now s)) =
                  deque_append (history_length s) (congestion_values s) x"
    if "congestion_threshold_rtt s \<noteq> 0" for now s
    using tick_score_defined [OF that] by (auto simp add: update_plot_congestion_values)
  have t: "length (time_values ?st) = min (ticks acts + 1) n"
    using run_buffer_length [where buf = time_values, OF tick_t process_packet_frame(7) thr
        start(1), of py_int py_float acts]
    by (simp add: h0 len0)
  have c: "length (cwnd_values ?st) = min (ticks acts + 1) n"
    using run_buffer_length [where buf = cwnd_values, OF tick_c process_packet_frame(8) thr
        start(2), of py_int py_float acts]
    by (simp add: h0 len0)
  have r: "length (rtt_values ?st) = min (ticks acts + 1) n"
    using run_buffer_length [where buf = rtt_values, OF tick_r process_packet_frame(9) thr
        start(3), of py_int py_float acts]
    by (simp add: h0 len0)
  have g: "length (congestion_values ?st) = min (ticks acts + 1) n"
    using run_buffer_length [where buf = congestion_values, OF tick_g process_packet_frame(11)
        thr start(4), of py_int py_float acts]
    by (simp add: h0 len0)
  have hs: "history_length ?st = n" and sts: "start_time ?st = t2"
    and thrs: "congestion_threshold_rtt ?st \<noteq> 0"
    using thr by (simp_all add: run_frame h0 st0)
  obtain sc where sc: "tick_score ?st = Inr sc"
    using tick_score_defined [OF thrs] by blast
  have fifo: "time_values (snd (update_plot now ?st)) = tl (time_values ?st) @ [now - t2]
        \<and> cwnd_values (snd (update_plot now ?st)) = tl (cwnd_values ?st) @ [latest_cwnd ?st]
        \<and> rtt_values (snd (update_plot now ?st)) = tl (rtt_values ?st) @ [latest_rtt ?st]
        \<and> (\<exists>c. tick_score ?st = Inr c
              \<and> congestion_values (snd (update_plot now ?st)) = tl (congestion_values ?st) @ [c])"
    if n: "0 < n" "n \<le> ticks acts + 1"
  proof -
    have full: "length (time_values ?st) = n" "length (cwnd_values ?st) = n"
      "length (rtt_values ?st) = n" "length (congestion_values ?st) = n"
      using n t c r g by simp_all
    then have ne: "time_values ?st \<noteq> []" "cwnd_values ?st \<noteq> []" "rtt_values ?st \<noteq> []"
      "congestion_values ?st \<noteq> []"
      using n(1) by auto
    show ?thesis
      using full ne sc
      by (simp add: update_plot_time_values update_plot_cwnd_values update_plot_rtt_values
            update_plot_congestion_values hs sts deque_append_full)
  qed
  show ?thesis using t c r g fifo by blast
qed

text \<open>Rules that evaluate a run on concrete inputs.\<close>

lemmas run_eval =
  run_def step.simps ticks_def is_tick.simps update_plot_frame update_plot_time_values
  update_plot_cwnd_values update_plot_rtt_values update_plot_congestion_values
  process_packet_frame process_packet_latest_cwnd process_packet_latest_rtt
  window_field_def rtt_field_def new_visualizer_def deque_append_def
  sample_int_def sample_float_def sample_packet_def

theorem history_buffers_aligned_witness:
  "(100::real) \<noteq> 0 \<and> 0 < (2::nat)
     \<and> 2 \<le> ticks [Tick 1, Capture sample_packet, Tick 2] + 1
     \<and> length (time_values (run sample_int sample_float [Tick 1, Capture sample_packet, Tick 2]
                  (new_visualizer 2 100 0.7 0 0))) = 2
     \<and> time_values (snd (update_plot 3
           (run sample_int sample_float [Tick 1, Capture sample_packet, Tick 2]
              (new_visualizer 2 100 0.7 0 0)))) = [2, 3]
     \<and> cwnd_values (snd (update_plot 3
           (run sample_int sample_float [Tick 1, Capture sample_packet, Tick 2]
              (new_visualizer 2 100 0.7 0 0)))) = [Some 800, Some 800]
     \<and> rtt_values (snd (update_plot 3
           (run sample_int sample_float [Tick 1, Capture sample_packet, Tick 2]
              (new_visualizer 2 100 0.7 0 0)))) = [Some 100, Some 100]"
  using history_buffers_aligned [where thr_rtt = 100 and n = 2 and thr_cwnd = "0.7"
      and ?t1.0 = 0 and ?t2.0 = 0 and now = 3 and py_int = sample_int and py_float = sample_float
      and acts = "[Tick 1, Capture sample_packet, Tick 2]"]
  by (simp add: run_eval)

section \<open>The claims about one tick\<close>

lemma half_threshold_visualizer_reached:
  "snd (process_packet sample_int sample_float sample_packet (new_visualizer 100 100 0.5 0 0))
     = half_threshold_visualizer"
  by (simp add: process_packet_def half_threshold_visualizer_def new_visualizer_def
        sample_int_def sample_float_def sample_packet_def)

lemma tick_score_value:
  assumes "congestion_threshold_rtt s \<noteq> 0" and "latest_rtt s = Some r"
    and "latest_cwnd s = Some c" and "0 < max_cwnd s"
  shows "tick_score s =
           Inr (Some ((min 1 (r / congestion_threshold_rtt s)
                       + (1 - min 1 (real_of_int c / real_of_int (max c (max_cwnd s))))) / 2))"
  using assms by (simp add: tick_score_def calculate_congestion_value update_cwnd_eq max_def)

text \<open>
  Claim C3 fails as stated: the configured \<^verbatim>\<open>congestion_threshold_cwnd\<close> is stored and never
  read, and the event test compares with the literal 0.7. Configured with 0.5, a tick
  whose score is 0.6 records no event.
\<close>

theorem congestion_event_counterexample:
  "congestion_threshold_cwnd half_threshold_visualizer = 0.5
     \<and> tick_score half_threshold_visualizer = Inr (Some 0.6)
     \<and> congestion_events (snd (update_plot 1 half_threshold_visualizer))
         = congestion_events half_threshold_visualizer"
proof -
  have "tick_score half_threshold_visualizer = Inr (Some 0.6)"
    by (subst tick_score_value [where r = 100 and c = 800])
       (simp_all add: half_threshold_visualizer_def new_visualizer_def)
  then show ?thesis
    by (simp add: update_plot_congestion_events)
       (simp add: half_threshold_visualizer_def new_visualizer_def)
qed

lemma tick_score_threshold_cwnd:
  "tick_score (s\<lparr>congestion_threshold_cwnd := thr\<rparr>) = tick_score s"
  unfolding tick_score_def
  by (simp, rule calculate_congestion_fields)
     (simp_all add: update_cwnd_eq split: option.splits)

text \<open>
  Claim C3, as amended. Whatever threshold was configured, a tick appends its elapsed
  time to the congestion events if and only if its score is defined and strictly greater
  than the constant 0.7.
\<close>

theorem congestion_event_fixed_threshold:
  "congestion_events (snd (update_plot now (s\<lparr>congestion_threshold_cwnd := thr\<rparr>))) =
     (if \<exists>c. tick_score s = Inr (Some c) \<and> 0.7 < c
      then congestion_events s @ [now - start_time s]
      else congestion_events s)"
  by (simp add: update_plot_congestion_events tick_score_threshold_cwnd)

text \<open>Rules that evaluate a captured packet on concrete inputs.\<close>

lemmas packet_eval =
  process_packet_frame process_packet_count process_packet_latest_cwnd
  process_packet_latest_rtt window_field_def rtt_field_def sample_int_def sample_float_def
  default_visualizer_def new_visualizer_def

theorem congestion_event_fixed_threshold_witness:
  "congestion_events (snd (update_plot 1
       ((snd (process_packet sample_int sample_float congested_packet default_visualizer))
          \<lparr>congestion_threshold_cwnd := 1\<rparr>))) = [1]"
proof -
  let ?p = "snd (process_packet sample_int sample_float congested_packet default_visualizer)"
  have "tick_score ?p = Inr (Some 0.95)"
    by (subst tick_score_value [where r = 150 and c = 100])
       (simp_all add: packet_eval congested_packet_def)
  moreover have "(0.7::real) < 0.95"
    by simp
  ultimately have "\<exists>c. tick_score ?p = Inr (Some c) \<and> 0.7 < c"
    by blast
  then have "congestion_events (snd (update_plot 1 (?p\<lparr>congestion_threshold_cwnd := 1\<rparr>))) =
               congestion_events ?p @ [1 - start_time ?p]"
    using congestion_event_fixed_threshold [where now = 1 and s = ?p and thr = 1]
    by (simp only: if_True)
  moreover have "congestion_events ?p = []" and "start_time ?p = 0"
    by (simp_all add: packet_eval)
  ultimately show ?thesis by simp
qed

text \<open>
  Claim C5. The largest window size seen never decreases along a run of ticks and
  captured packets, and a tick changes it only when a latest window size is present and
  strictly greater than it, in which case that window size becomes the new maximum.
\<close>

theorem max_cwnd_monotone:
  "max_cwnd s \<le> max_cwnd (run py_int py_float acts s)
     \<and> max_cwnd (snd (update_plot now s)) =
         (case latest_cwnd s of
            Some c \<Rightarrow> if max_cwnd s < c then c else max_cwnd s
          | None \<Rightarrow> max_cwnd s)
     \<and> (max_cwnd (snd (update_plot now s)) \<noteq> max_cwnd s
          \<longrightarrow> (\<exists>c. latest_cwnd s = Some c \<and> max_cwnd s < c))"
  by (simp add: run_max_cwnd update_plot_max_cwnd split: option.splits)

theorem max_cwnd_monotone_witness:
  "max_cwnd default_visualizer = 1000
     \<and> max_cwnd (run sample_int sample_float [Capture wide_packet, Tick 1] default_visualizer) = 2000
     \<and> max_cwnd (snd (update_plot 1
           (snd (process_packet sample_int sample_float wide_packet default_visualizer))))
         \<noteq> max_cwnd (snd (process_packet sample_int sample_float wide_packet default_visualizer))
     \<and> (\<exists>c. latest_cwnd (snd (process_packet sample_int sample_float wide_packet
                                  default_visualizer)) = Some c
            \<and> max_cwnd (snd (process_packet sample_int sample_float wide_packet
                                default_visualizer)) < c)"
  using max_cwnd_monotone [of "snd (process_packet sample_int sample_float wide_packet
      default_visualizer)" sample_int sample_float "[]" 1]
  by (simp add: run_def update_plot_max_cwnd packet_eval wide_packet_def)

text \<open>
  Claim C6. The throughput block of a tick never raises a division error, and on a tick
  whose elapsed time since the last throughput update is not positive it appends
  nothing: the throughput buffer and the time of the last update stay as they were.
\<close>

theorem throughput_skipped_without_elapsed_time:
  "(\<exists>s'. update_throughput current_time s = Inr s')
     \<and> (now - start_time s - last_throughput_time s \<le> 0
          \<longrightarrow> throughput_values (snd (update_plot now s)) = throughput_values s
              \<and> last_throughput_time (snd (update_plot now s)) = last_throughput_time s)"
  by (simp add: update_throughput_eq update_plot_throughput_values
        update_plot_last_throughput_time)

theorem throughput_skipped_without_elapsed_time_witness:
  "1700000001 - start_time epoch_visualizer - last_throughput_time epoch_visualizer \<le> 0
     \<and> throughput_values (snd (update_plot 1700000001 epoch_visualizer)) = [0]
     \<and> last_throughput_time (snd (update_plot 1700000001 epoch_visualizer)) = 1700000000"
  using throughput_skipped_without_elapsed_time [of 1 epoch_visualizer 1700000001]
  by (simp add: epoch_visualizer_def new_visualizer_def deque_append_def)

text \<open>
  Claim C7 states what the throughput block is written to do, and the code misses it. The
  time of the last throughput update starts as the absolute reading of \<^verbatim>\<open>time.time()\<close>
  (line 42), while a tick compares it with the time elapsed since the start (lines 136
  and 143). As long as the time since the start does not exceed that absolute reading,
  which is so on every real clock, the elapsed time of line 143 is not positive: the tick
  appends no throughput, keeps the time of the last update and still throws the packet
  count away. So 250 packets captured and a tick half a second after the constructor
  leave the throughput buffer with its dummy sample alone.
\<close>

theorem throughput_lost_on_real_clock:
  assumes "now - t_start \<le> t_throughput"
  shows "packet_count (capture_packets py_int py_float pkts
            (new_visualizer n thr_rtt thr_cwnd t_throughput t_start)) = int (length pkts)
     \<and> throughput_values (snd (update_plot now (capture_packets py_int py_float pkts
            (new_visualizer n thr_rtt thr_cwnd t_throughput t_start)))) = deque_append n [] 0
     \<and> packet_count (snd (update_plot now (capture_packets py_int py_float pkts
            (new_visualizer n thr_rtt thr_cwnd t_throughput t_start)))) = 0
     \<and> last_throughput_time (snd (update_plot now (capture_packets py_int py_float pkts
            (new_visualizer n thr_rtt thr_cwnd t_throughput t_start)))) = t_throughput"
proof -
  let ?init = "new_visualizer n thr_rtt thr_cwnd t_throughput t_start"
  let ?q = "capture_packets py_int py_float pkts ?init"
  have q: "start_time ?q = t_start" "last_throughput_time ?q = t_throughput"
    "throughput_values ?q = deque_append n [] 0"
    by (simp_all add: capture_packets_frame new_visualizer_def)
  have e: "\<not> 0 < now - start_time ?q - last_throughput_time ?q"
    using assms by (simp add: q)
  have "packet_count ?q = int (length pkts)"
    by (simp add: capture_packets_count new_visualizer_def)
  moreover have "throughput_values (snd (update_plot now ?q)) = deque_append n [] 0"
    unfolding update_plot_throughput_values using e by (simp add: q)
  moreover have "packet_count (snd (update_plot now ?q)) = 0"
    by (rule update_plot_packet_count)
  moreover have "last_throughput_time (snd (update_plot now ?q)) = t_throughput"
    unfolding update_plot_last_throughput_time using e by (simp add: q)
  ultimately show ?thesis by blast
qed

theorem throughput_lost_on_real_clock_witness:
  "1700000000.5 - 1700000000 \<le> (1700000000::real)
     \<and> packet_count (capture_packets sample_int sample_float (replicate 250 sample_packet)
           epoch_visualizer) = 250
     \<and> throughput_values (snd (update_plot 1700000000.5
           (capture_packets sample_int sample_float (replicate 250 sample_packet)
              epoch_visualizer))) = [0]
     \<and> packet_count (snd (update_plot 1700000000.5
           (capture_packets sample_int sample_float (replicate 250 sample_packet)
              epoch_visualizer))) = 0
     \<and> last_throughput_time (snd (update_plot 1700000000.5
           (capture_packets sample_int sample_float (replicate 250 sample_packet)
              epoch_visualizer))) = 1700000000"
  using throughput_lost_on_real_clock [where now = "1700000000.5" and t_start = 1700000000
      and t_throughput = 1700000000 and py_int = sample_int and py_float = sample_float
      and pkts = "replicate 250 sample_packet" and n = 100 and thr_rtt = 100
      and thr_cwnd = "0.7"]
  by (simp add: epoch_visualizer_def deque_append_def)

section \<open>The claim about the capture loop\<close>

text \<open>
  Claim C8. Every captured packet raises the packet count by exactly one, whatever else
  happens to it. The latest window size changes only when the packet carries the field
  and it parses as an integer, and then becomes that integer; the latest RTT changes only
  when the packet carries the annotation and it parses as a number, and then becomes
  that number times 1000 (unless the window size of the same packet failed to parse, which
  ends the processing of that packet). A missing or malformed field leaves the stored
  value as it was, and the loop goes on with the next packet.
\<close>

theorem capture_updates_latest_values:
  "packet_count (snd (process_packet py_int py_float pkt s)) = packet_count s + 1
     \<and> latest_cwnd (snd (process_packet py_int py_float pkt s)) =
         (case window_field pkt of
            None \<Rightarrow> latest_cwnd s
          | Some v \<Rightarrow> (case py_int v of None \<Rightarrow> latest_cwnd s | Some c \<Rightarrow> Some c))
     \<and> latest_rtt (snd (process_packet py_int py_float pkt s)) =
         (case rtt_field pkt of
            None \<Rightarrow> latest_rtt s
          | Some v \<Rightarrow>
              (case py_float v of
                 None \<Rightarrow> latest_rtt s
               | Some x \<Rightarrow>
                   if \<exists>w. window_field pkt = Some w \<and> py_int w = None
                   then latest_rtt s else Some (x * 1000)))
     \<and> capture_packets py_int py_float (pkt # pkts) s =
         capture_packets py_int py_float pkts (snd (process_packet py_int py_float pkt s))"
  by (simp add: process_packet_count process_packet_latest_cwnd process_packet_latest_rtt
        capture_packets_def)

theorem capture_updates_latest_values_witness:
  "packet_count (snd (process_packet sample_int sample_float sample_packet default_visualizer)) = 1
     \<and> latest_cwnd (snd (process_packet sample_int sample_float sample_packet default_visualizer))
         = Some 800
     \<and> latest_rtt (snd (process_packet sample_int sample_float sample_packet default_visualizer))
         = Some 100
     \<and> packet_count (snd (process_packet sample_int sample_float garbled_packet
           half_threshold_visualizer)) = 2
     \<and> latest_cwnd (snd (process_packet sample_int sample_float garbled_packet
           half_threshold_visualizer)) = Some 800
     \<and> latest_rtt (snd (process_packet sample_int sample_float garbled_packet
           half_threshold_visualizer)) = Some 100"
  using capture_updates_latest_values [of sample_int sample_float sample_packet
      default_visualizer "[]"]
    capture_updates_latest_values [of sample_int sample_float garbled_packet
      half_threshold_visualizer "[]"]
  by (simp add: packet_eval sample_packet_def garbled_packet_def half_threshold_visualizer_def)

section \<open>The claim about quiet periods\<close>

lemma run_ticks_latest:
  "latest_cwnd (run py_int py_float (map Tick nows) s) = latest_cwnd s"
  "latest_rtt (run py_int py_float (map Tick nows) s) = latest_rtt s"
  by (induction nows rule: rev_induct) (simp_all add: update_plot_frame)

text \<open>
  Claim C9. A tick leaves the latest window size and the latest RTT as they are, so
  after any number of ticks with no packet in between they are still the same, and the
  next tick appends them to the window size and RTT buffers once more.
\<close>

theorem tick_keeps_latest_values:
  "latest_cwnd (snd (update_plot now s)) = latest_cwnd s
     \<and> latest_rtt (snd (update_plot now s)) = latest_rtt s
     \<and> latest_cwnd (run py_int py_float (map Tick nows) s) = latest_cwnd s
     \<and> latest_rtt (run py_int py_float (map Tick nows) s) = latest_rtt s
     \<and> cwnd_values (snd (update_plot now (run py_int py_float (map Tick nows) s))) =
         deque_append (history_length s) (cwnd_values (run py_int py_float (map Tick nows) s))
           (latest_cwnd s)
     \<and> rtt_values (snd (update_plot now (run py_int py_float (map Tick nows) s))) =
         deque_append (history_length s) (rtt_values (run py_int py_float (map Tick nows) s))
           (latest_rtt s)"
  by (simp add: update_plot_frame run_ticks_latest update_plot_cwnd_values
        update_plot_rtt_values run_frame)

theorem tick_keeps_latest_values_witness:
  "cwnd_values (snd (update_plot 3 (run sample_int sample_float (map Tick [1, 2])
       (snd (process_packet sample_int sample_float sample_packet default_visualizer)))))
     = [Some 0, Some 800, Some 800, Some 800]
   \<and> rtt_values (snd (update_plot 3 (run sample_int sample_float (map Tick [1, 2])
       (snd (process_packet sample_int sample_float sample_packet default_visualizer)))))
     = [Some 0, Some 100, Some 100, Some 100]"
  using tick_keeps_latest_values [of 3
      "snd (process_packet sample_int sample_float sample_packet default_visualizer)"
      sample_int sample_float "[1, 2]"]
  by (simp add: run_eval default_visualizer_def sample_packet_def)

end
